theory Spec2Isabelle
  imports Main
begin

section \<open>Word and character count of \<open>lib/compat/wordpress-6.2/formatting.php\<close>\<close>

text \<open>
  \<open>gutenberg_word_count\<close> is straight-line PHP over the \<open>preg_*\<close> built-ins, so its
  behaviour is decided by what PHP does with each pattern string. The embedding keeps
  PHP strings as byte lists and pattern strings as the source writes them, and gives
  \<open>preg_replace\<close> and \<open>preg_match_all\<close> by a compiler and a backtracking matcher for
  the fragment of PCRE that the built-in patterns use. A pattern outside the fragment
  is reported as such (\<open>Unsupported\<close>, and \<open>Unmodelled\<close> for the call that used it),
  never guessed at. Resource limits of the matching engine (backtracking and recursion
  limits while matching, memory) are not part of the model.
\<close>

subsection \<open>Bytes\<close>

definition backslash :: char where
  "backslash = CHR 0x5C"

definition byte :: "char \<Rightarrow> int" where
  "byte c = of_char c"

definition isspace :: "int \<Rightarrow> bool" where
  \<comment> \<open>C \<open>isspace\<close> in the C locale: tab, LF, VT, FF, CR, space\<close>
  "isspace b = ((9 \<le> b \<and> b \<le> 13) \<or> b = 32)"

definition isupper :: "int \<Rightarrow> bool" where
  "isupper b = (65 \<le> b \<and> b \<le> 90)"

definition islower :: "int \<Rightarrow> bool" where
  "islower b = (97 \<le> b \<and> b \<le> 122)"

definition isdigit :: "int \<Rightarrow> bool" where
  "isdigit b = (48 \<le> b \<and> b \<le> 57)"

definition isalnum :: "int \<Rightarrow> bool" where
  "isalnum b = (isupper b \<or> islower b \<or> isdigit b)"

subsection \<open>The PCRE fragment\<close>

text \<open>
  A character class is a negation flag and a list of inclusive code ranges. A regex of
  the fragment is built from single-character classes, the quantifiers \<open>?\<close>, \<open>*\<close>, \<open>+\<close>
  (greedy or lazy) on a single-character class, sequence and alternation.
\<close>

type_synonym cls = "bool \<times> (int \<times> int) list"

datatype quant = Opt | Star | Plus

datatype regex =
    Eps
  | One cls
  | Rep quant bool cls
  | Seq regex regex
  | Alt regex regex

datatype 'a compiled = Invalid | Unsupported | Compiled 'a

text \<open>
  \<open>Invalid\<close>: PHP rejects the pattern with a warning and the \<open>preg_*\<close> call fails.
  \<open>Unsupported\<close>: the pattern is outside the fragment modelled here.
\<close>

record pcre =
  caseless :: bool
  utf :: bool
  prog :: regex

text \<open>A unit of the subject: its code (a byte, or a code point under \<open>/u\<close>) and its bytes.\<close>

type_synonym unit_t = "int \<times> string"

subsection \<open>Matching\<close>

definition in_ranges :: "(int \<times> int) list \<Rightarrow> int \<Rightarrow> bool" where
  "in_ranges rs c = list_ex (\<lambda>(lo, hi). lo \<le> c \<and> c \<le> hi) rs"

definition swapcase :: "int \<Rightarrow> int" where
  "swapcase c = (if isupper c then c + 32 else if islower c then c - 32 else c)"

definition cls_match :: "bool \<Rightarrow> cls \<Rightarrow> int \<Rightarrow> bool" where
  "cls_match i k c =
     (let hit = (in_ranges (snd k) c \<or> (i \<and> in_ranges (snd k) (swapcase c)))
      in if fst k then \<not> hit else hit)"

text \<open>
  \<open>spans P s\<close>: the suffixes of \<open>s\<close> left after consuming 0, 1, 2, ... leading units
  that satisfy \<open>P\<close>, shortest consumption first.
\<close>

fun spans :: "('a \<Rightarrow> bool) \<Rightarrow> 'a list \<Rightarrow> 'a list list" where
  "spans P [] = [[]]"
| "spans P (u # s) = (u # s) # (if P u then spans P s else [])"

definition rep_spans :: "quant \<Rightarrow> bool \<Rightarrow> 'a list list \<Rightarrow> 'a list list" where
  "rep_spans q lazy sp =
     (let cands = (case q of Opt \<Rightarrow> take 2 sp | Star \<Rightarrow> sp | Plus \<Rightarrow> tl sp)
      in if lazy then cands else rev cands)"

text \<open>
  \<open>matches i r s\<close>: every way \<open>r\<close> matches a prefix of \<open>s\<close>, as the list of what is left
  of \<open>s\<close>, in the order a backtracking matcher tries them (left alternative first, a
  greedy quantifier longest first, a lazy one shortest first). The head of the list is
  the match PCRE reports at this position.
\<close>

fun matches :: "bool \<Rightarrow> regex \<Rightarrow> unit_t list \<Rightarrow> unit_t list list" where
  "matches i Eps s = [s]"
| "matches i (One k) s =
     (case s of [] \<Rightarrow> [] | u # s' \<Rightarrow> if cls_match i k (fst u) then [s'] else [])"
| "matches i (Rep q lazy k) s = rep_spans q lazy (spans (\<lambda>u. cls_match i k (fst u)) s)"
| "matches i (Seq a b) s = concat (map (matches i b) (matches i a s))"
| "matches i (Alt a b) s = matches i a s @ matches i b s"

fun nullable :: "regex \<Rightarrow> bool" where
  "nullable Eps = True"
| "nullable (One k) = False"
| "nullable (Rep q lazy k) = (q \<noteq> Plus)"
| "nullable (Seq a b) = (nullable a \<and> nullable b)"
| "nullable (Alt a b) = (nullable a \<or> nullable b)"

text \<open>
  The global scan of \<open>preg_replace\<close> and \<open>preg_match_all\<close>: leftmost match, then on
  from its end. The counter \<open>k\<close> is the number of units still inside the last match.
  Only non-nullable programs are compiled, so a match has at least one unit.
\<close>

fun subst :: "bool \<Rightarrow> regex \<Rightarrow> string \<Rightarrow> nat \<Rightarrow> unit_t list \<Rightarrow> string" where
  "subst i r rep k [] = []"
| "subst i r rep (Suc k) (u # s) = subst i r rep k s"
| "subst i r rep 0 (u # s) =
     (case matches i r (u # s) of
        [] \<Rightarrow> snd u @ subst i r rep 0 s
      | left # _ \<Rightarrow> rep @ subst i r rep (length s - length left) s)"

fun found :: "bool \<Rightarrow> regex \<Rightarrow> nat \<Rightarrow> unit_t list \<Rightarrow> string list" where
  "found i r k [] = []"
| "found i r (Suc k) (u # s) = found i r k s"
| "found i r 0 (u # s) =
     (case matches i r (u # s) of
        [] \<Rightarrow> found i r 0 s
      | left # _ \<Rightarrow>
          concat (map snd (take (Suc (length s) - length left) (u # s)))
            # found i r (length s - length left) s)"

text \<open>A match never grows the subject, and a non-nullable program consumes a unit.\<close>

lemma spans_shorter: "t \<in> set (spans P s) \<Longrightarrow> length t \<le> length s"
  by (induction s) (auto split: if_splits)

lemma tl_spans_shorter: "t \<in> set (tl (spans P s)) \<Longrightarrow> length t < length s"
  by (cases s) (auto split: if_splits dest: spans_shorter)

lemma in_set_tl: "x \<in> set (tl xs) \<Longrightarrow> x \<in> set xs"
  by (cases xs) auto

lemma rep_spans_subset: "set (rep_spans q lazy sp) \<subseteq> set sp"
  by (cases q) (auto simp: rep_spans_def Let_def dest: in_set_takeD in_set_tl)

lemma rep_spans_Plus: "set (rep_spans Plus lazy sp) = set (tl sp)"
  by (simp add: rep_spans_def Let_def)

lemma matches_shorter: "t \<in> set (matches i r s) \<Longrightarrow> length t \<le> length s"
proof (induction r arbitrary: s t)
  case Eps
  then show ?case by simp
next
  case (One k)
  then show ?case by (cases s) (auto split: if_splits)
next
  case (Rep q lazy k)
  then have "t \<in> set (spans (\<lambda>u. cls_match i k (fst u)) s)"
    using rep_spans_subset by fastforce
  then show ?case by (rule spans_shorter)
next
  case (Seq a b)
  then obtain m where "m \<in> set (matches i a s)" and "t \<in> set (matches i b m)" by auto
  with Seq.IH show ?case by fastforce
next
  case (Alt a b)
  then show ?case by auto
qed

lemma matches_consume:
  "\<not> nullable r \<Longrightarrow> t \<in> set (matches i r s) \<Longrightarrow> length t < length s"
proof (induction r arbitrary: s t)
  case Eps
  then show ?case by simp
next
  case (One k)
  then show ?case by (cases s) (auto split: if_splits)
next
  case (Rep q lazy k)
  then have "q = Plus" by simp
  with Rep.prems have "t \<in> set (tl (spans (\<lambda>u. cls_match i k (fst u)) s))"
    by (simp add: rep_spans_Plus)
  then show ?case by (rule tl_spans_shorter)
next
  case (Seq a b)
  from Seq.prems obtain m where m: "m \<in> set (matches i a s)" and t: "t \<in> set (matches i b m)"
    by auto
  have le_a: "length m \<le> length s" using m by (rule matches_shorter)
  have le_b: "length t \<le> length m" using t by (rule matches_shorter)
  from Seq.prems have "\<not> nullable a \<or> \<not> nullable b" by simp
  then show ?case
  proof
    assume "\<not> nullable a"
    from Seq.IH(1) [OF this m] le_b show ?thesis by simp
  next
    assume "\<not> nullable b"
    from Seq.IH(2) [OF this t] le_a show ?thesis by simp
  qed
next
  case (Alt a b)
  then show ?case by auto
qed

subsection \<open>Subjects as units\<close>

definition byte_units :: "string \<Rightarrow> unit_t list" where
  "byte_units s = map (\<lambda>c. (byte c, [c])) s"

definition cont :: "char \<Rightarrow> bool" where
  "cont c = (128 \<le> byte c \<and> byte c \<le> 191)"

definition low6 :: "char \<Rightarrow> int" where
  "low6 c = byte c - 128"

definition scalar3 :: "int \<Rightarrow> bool" where
  "scalar3 v = (2048 \<le> v \<and> \<not> (55296 \<le> v \<and> v \<le> 57343))"

definition scalar4 :: "int \<Rightarrow> bool" where
  "scalar4 v = (65536 \<le> v \<and> v \<le> 1114111)"

fun utf8_units :: "string \<Rightarrow> unit_t list option" where
  "utf8_units [] = Some []"
| "utf8_units (a # s) =
     (if byte a < 128 then map_option (Cons (byte a, [a])) (utf8_units s)
      else if 194 \<le> byte a \<and> byte a \<le> 223 then
        (case s of
           b # s1 \<Rightarrow>
             if cont b
             then map_option (Cons ((byte a - 192) * 64 + low6 b, [a, b])) (utf8_units s1)
             else None
         | _ \<Rightarrow> None)
      else if 224 \<le> byte a \<and> byte a \<le> 239 then
        (case s of
           b # c # s2 \<Rightarrow>
             if cont b \<and> cont c \<and> scalar3 ((byte a - 224) * 4096 + low6 b * 64 + low6 c)
             then map_option
                    (Cons ((byte a - 224) * 4096 + low6 b * 64 + low6 c, [a, b, c]))
                    (utf8_units s2)
             else None
         | _ \<Rightarrow> None)
      else if 240 \<le> byte a \<and> byte a \<le> 244 then
        (case s of
           b # c # d # s3 \<Rightarrow>
             if cont b \<and> cont c \<and> cont d
                \<and> scalar4 ((byte a - 240) * 262144 + low6 b * 4096 + low6 c * 64 + low6 d)
             then map_option
                    (Cons ((byte a - 240) * 262144 + low6 b * 4096 + low6 c * 64 + low6 d,
                           [a, b, c, d]))
                    (utf8_units s3)
             else None
         | _ \<Rightarrow> None)
      else None)"


subsection \<open>Compiling a pattern body\<close>

datatype atom = Lit int | Space | NonSpace

definition space_ranges :: "(int \<times> int) list" where
  "space_ranges = [(9, 13), (32, 32)]"

definition nonspace_ranges :: "(int \<times> int) list" where
  "nonspace_ranges = [(0, 8), (14, 31), (33, 1114111)]"

fun atom_cls :: "atom \<Rightarrow> cls" where
  "atom_cls (Lit c) = (False, [(c, c)])"
| "atom_cls Space = (False, space_ranges)"
| "atom_cls NonSpace = (True, space_ranges)"

fun atom_ranges :: "atom \<Rightarrow> (int \<times> int) list" where
  "atom_ranges (Lit c) = [(c, c)]"
| "atom_ranges Space = space_ranges"
| "atom_ranges NonSpace = nonspace_ranges"

definition hexval :: "int \<Rightarrow> int" where
  "hexval c = (if isdigit c then c - 48
               else if 65 \<le> c \<and> c \<le> 70 then c - 55
               else if 97 \<le> c \<and> c \<le> 102 then c - 87
               else - 1)"

definition is_hex :: "int \<Rightarrow> bool" where
  "is_hex c = (0 \<le> hexval c)"

definition hexnum :: "int list \<Rightarrow> int" where
  "hexnum ds = foldl (\<lambda>a d. a * 16 + hexval d) 0 ds"

definition is_surrogate :: "int \<Rightarrow> bool" where
  "is_surrogate v = (55296 \<le> v \<and> v \<le> 57343)"

text \<open>
  \<open>parse_hex\<close> reads what follows \<open>\x\<close>; only the braced form is in the fragment. Under
  \<open>/u\<close> PCRE refuses to compile a surrogate code point (``disallowed Unicode code point
  (>= 0xd800 && <= 0xdfff)'').
\<close>

definition parse_hex :: "bool \<Rightarrow> int list \<Rightarrow> (atom \<times> int list) compiled" where
  "parse_hex u xs =
     (case xs of
        [] \<Rightarrow> Unsupported
      | c # r \<Rightarrow>
          if c \<noteq> byte (CHR ''{'') then Unsupported
          else (case dropWhile is_hex r of
                  [] \<Rightarrow> Unsupported
                | e # r' \<Rightarrow>
                    let v = hexnum (takeWhile is_hex r) in
                    if e \<noteq> byte (CHR ''}'') \<or> takeWhile is_hex r = [] then Unsupported
                    else if 1114111 < v then Unsupported
                    else if u \<and> is_surrogate v then Invalid
                    else if \<not> u \<and> 255 < v then Unsupported
                    else Compiled (Lit v, r')))"

text \<open>\<open>parse_escape\<close> reads what follows a backslash.\<close>

definition parse_escape :: "bool \<Rightarrow> int list \<Rightarrow> (atom \<times> int list) compiled" where
  "parse_escape u xs =
     (case xs of
        [] \<Rightarrow> Unsupported
      | c # r \<Rightarrow>
          if c = byte (CHR ''s'') then (if u then Unsupported else Compiled (Space, r))
          else if c = byte (CHR ''S'') then (if u then Unsupported else Compiled (NonSpace, r))
          else if c = byte (CHR ''x'') then parse_hex u r
          else if isalnum c \<or> 128 \<le> c then Unsupported
          else Compiled (Lit c, r))"

definition class_atom :: "bool \<Rightarrow> int list \<Rightarrow> (atom \<times> int list) compiled" where
  "class_atom u xs =
     (case xs of
        [] \<Rightarrow> Unsupported
      | c # r \<Rightarrow>
          if c = byte backslash then parse_escape u r
          else if c = byte (CHR ''['') then Unsupported
          else Compiled (Lit c, r))"

lemma parse_hex_shorter:
  assumes "parse_hex u xs = Compiled (a, r)"
  shows "length r < length xs"
proof (cases xs)
  case Nil
  with assms show ?thesis by (simp add: parse_hex_def)
next
  case outer: (Cons c t)
  show ?thesis
  proof (cases "dropWhile is_hex t")
    case Nil
    from assms outer show ?thesis by (simp add: parse_hex_def Nil split: if_splits)
  next
    case (Cons e r')
    have "length (dropWhile is_hex t) \<le> length t" by (rule length_dropWhile_le)
    with Cons have "length r' < length xs" by (simp add: outer)
    moreover from assms outer have "r = r'"
      by (simp add: parse_hex_def Let_def Cons split: if_splits)
    ultimately show ?thesis by simp
  qed
qed

lemma parse_escape_shorter:
  assumes "parse_escape u xs = Compiled (a, r)"
  shows "length r < length xs"
proof (cases xs)
  case Nil
  with assms show ?thesis by (simp add: parse_escape_def)
next
  case (Cons c t)
  show ?thesis
  proof (cases "c = byte (CHR ''x'')")
    case True
    with assms Cons have "parse_hex u t = Compiled (a, r)"
      by (simp add: parse_escape_def byte_def split: if_splits)
    from parse_hex_shorter [OF this] Cons show ?thesis by simp
  next
    case False
    with assms Cons have "r = t"
      by (simp add: parse_escape_def split: if_splits)
    with Cons show ?thesis by simp
  qed
qed

lemma class_atom_shorter:
  assumes "class_atom u xs = Compiled (a, r)"
  shows "length r < length xs"
proof (cases xs)
  case Nil
  with assms show ?thesis by (simp add: class_atom_def)
next
  case (Cons c t)
  show ?thesis
  proof (cases "c = byte backslash")
    case True
    with assms Cons have "parse_escape u t = Compiled (a, r)"
      by (simp add: class_atom_def)
    from parse_escape_shorter [OF this] Cons show ?thesis by simp
  next
    case False
    with assms Cons have "r = t"
      by (simp add: class_atom_def split: if_splits)
    with Cons show ?thesis by simp
  qed
qed


text \<open>
  \<open>class_items\<close> reads the inside of \<open>[...]\<close> up to the closing bracket: single
  characters, \<open>\s\<close>, \<open>\S\<close>, and ranges between two single characters.
\<close>

definition range_of :: "atom \<Rightarrow> atom \<Rightarrow> (int \<times> int) list compiled" where
  "range_of a b =
     (case (a, b) of
        (Lit lo, Lit hi) \<Rightarrow> if lo \<le> hi then Compiled [(lo, hi)] else Unsupported
      | _ \<Rightarrow> Unsupported)"

function class_items ::
  "bool \<Rightarrow> (int \<times> int) list \<Rightarrow> int list \<Rightarrow> ((int \<times> int) list \<times> int list) compiled"
where
  "class_items u acc [] = Unsupported"
| "class_items u acc (c # rest) =
     (if c = byte (CHR '']'') then (if acc = [] then Unsupported else Compiled (acc, rest))
      else
        (case class_atom u (c # rest) of
           Invalid \<Rightarrow> Invalid
         | Unsupported \<Rightarrow> Unsupported
         | Compiled (a, r1) \<Rightarrow>
             if take 1 r1 = [byte (CHR ''-'')] \<and> take 1 (drop 1 r1) \<noteq> [byte (CHR '']'')]
             then
               (case class_atom u (drop 1 r1) of
                  Invalid \<Rightarrow> Invalid
                | Unsupported \<Rightarrow> Unsupported
                | Compiled (b, r2) \<Rightarrow>
                    (case range_of a b of
                       Compiled rg \<Rightarrow> class_items u (acc @ rg) r2
                     | _ \<Rightarrow> Unsupported))
             else class_items u (acc @ atom_ranges a) r1))"
  by pat_completeness auto
termination
  apply (relation "measure (\<lambda>(u, acc, xs). length xs)")
    apply simp
   apply (auto dest!: class_atom_shorter)
  done



lemma class_items_shorter:
  "class_items u acc xs = Compiled (rs, r) \<Longrightarrow> length r < length xs"
proof (induction u acc xs rule: class_items.induct)
  case (1 u acc)
  then show ?case by simp
next
  case (2 u acc c rest)
  show ?case
  proof (cases "c = byte (CHR '']'')")
    case True
    with "2.prems" show ?thesis by (simp split: if_splits)
  next
    case False
    note not_close = this
    show ?thesis
    proof (cases "class_atom u (c # rest)")
      case Invalid
      with "2.prems" not_close show ?thesis by simp
    next
      case Unsupported
      with "2.prems" not_close show ?thesis by simp
    next
      case (Compiled p)
      obtain a r1 where p: "p = (a, r1)" by (cases p)
      from Compiled p have l1: "length r1 < length (c # rest)"
        by (auto dest: class_atom_shorter)
      show ?thesis
      proof (cases "take 1 r1 = [byte (CHR ''-'')] \<and> take 1 (drop 1 r1) \<noteq> [byte (CHR '']'')]")
        case False
        with "2.prems" not_close Compiled p
        have "class_items u (acc @ atom_ranges a) r1 = Compiled (rs, r)" by auto
        from "2.IH"(2) [OF not_close Compiled p [symmetric] False this] l1
        show ?thesis by simp
      next
        case True
        note is_range = this
        show ?thesis
        proof (cases "class_atom u (drop 1 r1)")
          case Invalid
          with "2.prems" not_close \<open>class_atom u (c # rest) = Compiled p\<close> p is_range
          show ?thesis by simp
        next
          case Unsupported
          with "2.prems" not_close \<open>class_atom u (c # rest) = Compiled p\<close> p is_range
          show ?thesis by simp
        next
          case inner: (Compiled p2)
          obtain b r2 where p2: "p2 = (b, r2)" by (cases p2)
          from inner p2 have l2: "length r2 < length (drop 1 r1)"
            by (auto dest: class_atom_shorter)
          show ?thesis
          proof (cases "range_of a b")
            case (Compiled rg)
            with "2.prems" not_close \<open>class_atom u (c # rest) = Compiled p\<close> p is_range inner p2
            have "class_items u (acc @ rg) r2 = Compiled (rs, r)" by simp
            from "2.IH"(1) [OF not_close \<open>class_atom u (c # rest) = Compiled p\<close>
                p [symmetric] is_range inner p2 [symmetric] Compiled this] l1 l2
            show ?thesis by simp
          next
            case Invalid
            with "2.prems" not_close \<open>class_atom u (c # rest) = Compiled p\<close> p is_range inner p2
            show ?thesis by simp
          next
            case Unsupported
            with "2.prems" not_close \<open>class_atom u (c # rest) = Compiled p\<close> p is_range inner p2
            show ?thesis by simp
          qed
        qed
      qed
    qed
  qed
qed

text \<open>
  PCRE reads a bracket that opens with \<open>:\<close>, \<open>.\<close> or \<open>=\<close> and runs up to the same
  character before a \<open>]\<close> as a POSIX item outside a class, and refuses to compile it.
  \<open>posix_scan\<close> is the scan of its \<open>check_posix_syntax\<close>.
\<close>

fun posix_scan :: "int \<Rightarrow> int list \<Rightarrow> bool" where
  "posix_scan t (a # b # rest) =
     (if a = byte backslash \<and> (b = byte (CHR '']'') \<or> b = byte backslash)
      then posix_scan t rest
      else if (a = byte (CHR ''['') \<and> b = t) \<or> a = byte (CHR '']'') then False
      else if a = t \<and> b = byte (CHR '']'') then True
      else posix_scan t (b # rest))"
| "posix_scan t rest = False"

definition check_posix_syntax :: "int list \<Rightarrow> bool" where
  "check_posix_syntax xs =
     (case xs of
        [] \<Rightarrow> False
      | t # rest \<Rightarrow>
          (t = byte (CHR '':'') \<or> t = byte (CHR ''.'') \<or> t = byte (CHR ''=''))
          \<and> posix_scan t rest)"

definition parse_class :: "bool \<Rightarrow> int list \<Rightarrow> (cls \<times> int list) compiled" where
  "parse_class u xs =
     (if check_posix_syntax xs then Invalid
      else if take 1 xs = [byte (CHR ''^'')]
      then map_compiled (\<lambda>(rs, r). ((True, rs), r)) (class_items u [] (drop 1 xs))
      else map_compiled (\<lambda>(rs, r). ((False, rs), r)) (class_items u [] xs))"

lemma parse_class_shorter:
  assumes "parse_class u xs = Compiled (k, r)"
  shows "length r < Suc (length xs)"
proof -
  from assms have plain: "\<not> check_posix_syntax xs"
    by (auto simp: parse_class_def split: if_splits)
  show ?thesis
  proof (cases "take 1 xs = [byte (CHR ''^'')]")
    case True
    with assms plain obtain rs where "class_items u [] (drop 1 xs) = Compiled (rs, r)"
      by (cases "class_items u [] (drop 1 xs)") (auto simp: parse_class_def)
    from class_items_shorter [OF this] show ?thesis by simp
  next
    case False
    with assms plain obtain rs where "class_items u [] xs = Compiled (rs, r)"
      by (cases "class_items u [] xs") (auto simp: parse_class_def)
    from class_items_shorter [OF this] show ?thesis by simp
  qed
qed

text \<open>
  A quantifier is accepted directly after a single-character item only; \<open>quantify\<close>
  looks for it (and for the lazy mark after it).
\<close>

definition quant_of :: "int \<Rightarrow> quant option" where
  "quant_of c = (if c = byte (CHR ''?'') then Some Opt
                 else if c = byte (CHR ''*'') then Some Star
                 else if c = byte (CHR ''+'') then Some Plus
                 else None)"

definition quantify :: "cls \<Rightarrow> int list \<Rightarrow> (regex \<times> int list) compiled" where
  "quantify k xs =
     (case xs of
        [] \<Rightarrow> Compiled (One k, [])
      | c # r \<Rightarrow>
          (case quant_of c of
             None \<Rightarrow> Compiled (One k, xs)
           | Some q \<Rightarrow>
               if take 1 r = [byte (CHR ''?'')] then Compiled (Rep q True k, drop 1 r)
               else if take 1 r = [byte (CHR ''+'')] then Unsupported
               else Compiled (Rep q False k, r)))"

lemma quantify_shorter:
  "quantify k xs = Compiled (re, r) \<Longrightarrow> length r \<le> length xs"
  by (cases xs) (auto simp: quantify_def split: option.splits if_splits)

datatype token = TItem regex | TBar | TOpen | TClose

definition item :: "(cls \<times> int list) compiled \<Rightarrow> (regex \<times> int list) compiled" where
  "item p = (case p of
               Invalid \<Rightarrow> Invalid
             | Unsupported \<Rightarrow> Unsupported
             | Compiled (k, r) \<Rightarrow> quantify k r)"

definition metachar :: "int \<Rightarrow> bool" where
  "metachar c = (c \<in> byte ` set ''?*+{^$.'')"

lemma item_shorter:
  assumes "item (if c = byte backslash
                    then map_compiled (\<lambda>(a, r). (atom_cls a, r)) (parse_escape u rest)
                    else if c = byte (CHR ''['') then parse_class u rest
                    else Compiled ((False, [(c, c)]), rest)) = Compiled (re, r)"
  shows "length r < Suc (length rest)"
proof -
  let ?p = "if c = byte backslash
                    then map_compiled (\<lambda>(a, r). (atom_cls a, r)) (parse_escape u rest)
                    else if c = byte (CHR ''['') then parse_class u rest
                    else Compiled ((False, [(c, c)]), rest)"
  from assms obtain k r0 where p: "?p = Compiled (k, r0)" and q: "quantify k r0 = Compiled (re, r)"
    by (cases ?p) (auto simp: item_def)
  have "length r0 < Suc (length rest)"
  proof (cases "c = byte backslash")
    case True
    with p obtain a where "parse_escape u rest = Compiled (a, r0)"
      by (cases "parse_escape u rest") auto
    from parse_escape_shorter [OF this] show ?thesis by simp
  next
    case False
    show ?thesis
    proof (cases "c = byte (CHR ''['')")
      case True
      with p False have "parse_class u rest = Compiled (k, r0)" by simp
      from parse_class_shorter [OF this] show ?thesis .
    next
      case False
      with p \<open>c \<noteq> byte backslash\<close> show ?thesis by simp
    qed
  qed
  with quantify_shorter [OF q] show ?thesis by simp
qed

function tokenize :: "bool \<Rightarrow> int list \<Rightarrow> token list compiled" where
  "tokenize u [] = Compiled []"
| "tokenize u (c # rest) =
     (if c = byte (CHR ''('') then
        (if take 2 rest = [byte (CHR ''?''), byte (CHR '':'')]
         then map_compiled (Cons TOpen) (tokenize u (drop 2 rest))
         else if take 1 rest = [byte (CHR ''?'')] \<or> take 1 rest = [byte (CHR ''*'')]
         then Unsupported
         else map_compiled (Cons TOpen) (tokenize u rest))
      else if c = byte (CHR '')'') then map_compiled (Cons TClose) (tokenize u rest)
      else if c = byte (CHR ''|'') then map_compiled (Cons TBar) (tokenize u rest)
      else if metachar c then Unsupported
      else
        (case item (if c = byte backslash
                    then map_compiled (\<lambda>(a, r). (atom_cls a, r)) (parse_escape u rest)
                    else if c = byte (CHR ''['') then parse_class u rest
                    else Compiled ((False, [(c, c)]), rest)) of
           Invalid \<Rightarrow> Invalid
         | Unsupported \<Rightarrow> Unsupported
         | Compiled (re, r) \<Rightarrow> map_compiled (Cons (TItem re)) (tokenize u r)))"
  by pat_completeness auto

termination
  apply (relation "measure (\<lambda>(u, xs). length xs)")
      apply simp
     apply simp
    apply simp
   apply simp
  apply simp
  apply (auto dest!: item_shorter)
  done

text \<open>
  \<open>build\<close> assembles the tokens with a stack of open groups; a frame holds the finished
  alternatives and the current sequence, both newest first.
\<close>

fun mk_seq :: "regex list \<Rightarrow> regex" where
  "mk_seq [] = Eps"
| "mk_seq [r] = r"
| "mk_seq (r # rs) = Seq r (mk_seq rs)"

fun mk_alt :: "regex list \<Rightarrow> regex" where
  "mk_alt [] = Eps"
| "mk_alt [r] = r"
| "mk_alt (r # rs) = Alt r (mk_alt rs)"

definition close_frame :: "regex list \<times> regex list \<Rightarrow> regex" where
  "close_frame f = mk_alt (rev (mk_seq (rev (snd f)) # fst f))"

fun build :: "token list \<Rightarrow> (regex list \<times> regex list) list \<Rightarrow> regex compiled" where
  "build ts [] = Unsupported"
| "build [] [f] = Compiled (close_frame f)"
| "build [] (f # g # st) = Unsupported"
| "build (TItem r # ts) ((alts, cur) # st) = build ts ((alts, r # cur) # st)"
| "build (TBar # ts) ((alts, cur) # st) = build ts ((mk_seq (rev cur) # alts, []) # st)"
| "build (TOpen # ts) (f # st) = build ts (([], []) # f # st)"
| "build (TClose # ts) [f] = Unsupported"
| "build (TClose # ts) (f # (alts, cur) # st) = build ts ((alts, close_frame f # cur) # st)"

subsection \<open>PHP's pattern strings\<close>

text \<open>
  What \<open>pcre_get_compiled_regex_cache\<close> of PHP does with a pattern string (in the C
  locale): skip leading whitespace, take the delimiter, which must not be alphanumeric,
  a backslash or NUL, find the closing delimiter (a backslash escapes the next byte),
  read the modifiers, and hand the body to PCRE. Of the modifiers only \<open>i\<close> and \<open>u\<close>
  are in the fragment, and not both together; bodies longer than 250 bytes are outside
  it.
\<close>

fun find_end :: "char \<Rightarrow> string \<Rightarrow> (string \<times> string) option" where
  "find_end d [] = None"
| "find_end d [c] = (if c = d then Some ([], []) else None)"
| "find_end d (c # c' # cs) =
     (if c = backslash then map_option (\<lambda>(b, m). (c # c' # b, m)) (find_end d cs)
      else if c = d then Some ([], c' # cs)
      else map_option (\<lambda>(b, m). (c # b, m)) (find_end d (c' # cs)))"

definition codes :: "bool \<Rightarrow> string \<Rightarrow> int list option" where
  "codes u body = (if u then map_option (map fst) (utf8_units body) else Some (map byte body))"

definition pcre2_compile :: "bool \<Rightarrow> bool \<Rightarrow> string \<Rightarrow> pcre compiled" where
  \<comment> \<open>a body of at most 250 bytes stays within PCRE's limits on nesting depth and on the
      size of the compiled pattern, which are not modelled\<close>
  "pcre2_compile i u body =
     (if (i \<and> u) \<or> 250 < length body then Unsupported
      else
        (case codes u body of
           None \<Rightarrow> Unsupported
         | Some cs \<Rightarrow>
             (case tokenize u cs of
                Invalid \<Rightarrow> Invalid
              | Unsupported \<Rightarrow> Unsupported
              | Compiled ts \<Rightarrow>
                  (case build ts [([], [])] of
                     Invalid \<Rightarrow> Invalid
                   | Unsupported \<Rightarrow> Unsupported
                   | Compiled r \<Rightarrow>
                       if nullable r then Unsupported
                       else Compiled \<lparr>caseless = i, utf = u, prog = r\<rparr>))))"

definition pcre_get_compiled_regex :: "string \<Rightarrow> pcre compiled" where
  "pcre_get_compiled_regex regex =
     (case dropWhile (\<lambda>c. isspace (byte c)) regex of
        [] \<Rightarrow> Invalid
      | d # rest \<Rightarrow>
          if isalnum (byte d) \<or> d = backslash \<or> byte d = 0 then Invalid
          else if list_ex (\<lambda>c. byte c = 0) rest \<or> d \<in> set ''([{<'' then Unsupported
          else
            (case find_end d rest of
               None \<Rightarrow> Invalid
             | Some (body, mods) \<Rightarrow>
                 if list_all (\<lambda>m. m = CHR ''i'' \<or> m = CHR ''u'') mods
                 then pcre2_compile (CHR ''i'' \<in> set mods) (CHR ''u'' \<in> set mods) body
                 else Unsupported))"

text \<open>Every compiled program consumes at least one unit per match.\<close>

lemma pcre2_compile_consumes:
  assumes "pcre2_compile i u body = Compiled re"
  shows "\<not> nullable (prog re)"
proof -
  from assms obtain r where "\<not> nullable r" and "re = \<lparr>caseless = i, utf = u, prog = r\<rparr>"
    by (auto simp: pcre2_compile_def split: if_splits option.splits compiled.splits)
  then show ?thesis by simp
qed

lemma compiled_regex_consumes:
  assumes "pcre_get_compiled_regex regex = Compiled re"
  shows "\<not> nullable (prog re)"
proof -
  from assms obtain i u body where "pcre2_compile i u body = Compiled re"
    by (auto simp: pcre_get_compiled_regex_def split: list.splits if_splits option.splits)
  then show ?thesis by (rule pcre2_compile_consumes)
qed

subsection \<open>\<open>preg_replace\<close> and \<open>preg_match_all\<close>\<close>

datatype 'a answer = Unmodelled | Returns 'a

definition and_then :: "'a answer \<Rightarrow> ('a \<Rightarrow> 'b answer) \<Rightarrow> 'b answer" where
  "and_then a f = (case a of Unmodelled \<Rightarrow> Unmodelled | Returns x \<Rightarrow> f x)"

text \<open>
  A PHP value that is a string or \<open>NULL\<close> is a \<open>string option\<close>. Passed as a subject,
  \<open>NULL\<close> is taken as the empty string.
\<close>

definition subject_units :: "pcre \<Rightarrow> string option \<Rightarrow> unit_t list option" where
  "subject_units re subject =
     (let s = (case subject of None \<Rightarrow> [] | Some t \<Rightarrow> t)
      in if utf re then utf8_units s else Some (byte_units s))"

text \<open>
  \<open>preg_replace\<close> with string pattern, replacement and subject: every match replaced,
  \<open>NULL\<close> when the pattern does not compile or the subject is not UTF-8 under \<open>/u\<close>.
  Replacements that refer to groups (\<open>$\<close> or a backslash in them) are outside the
  model.
\<close>

definition preg_replace :: "string \<Rightarrow> string \<Rightarrow> string option \<Rightarrow> string option answer" where
  "preg_replace pattern replacement subject =
     (if list_ex (\<lambda>c. c = CHR ''$'' \<or> c = backslash) replacement then Unmodelled
      else
        (case pcre_get_compiled_regex pattern of
           Invalid \<Rightarrow> Returns None
         | Unsupported \<Rightarrow> Unmodelled
         | Compiled re \<Rightarrow>
             (case subject_units re subject of
                None \<Rightarrow> Returns None
              | Some us \<Rightarrow> Returns (Some (subst (caseless re) (prog re) replacement 0 us)))))"

text \<open>
  \<open>preg_match_all\<close> in its default order: what it leaves in \<open>$matches\<close>, of which only
  entry 0 (the full matches) is modelled. When the pattern does not compile the
  variable is left unset, which is \<open>[]\<close> here (both are falsy in PHP); when the match
  fails at run time entry 0 is there and empty.
\<close>

definition preg_match_all :: "string \<Rightarrow> string option \<Rightarrow> string list list answer" where
  "preg_match_all pattern subject =
     (case pcre_get_compiled_regex pattern of
        Invalid \<Rightarrow> Returns []
      | Unsupported \<Rightarrow> Unmodelled
      | Compiled re \<Rightarrow>
          (case subject_units re subject of
             None \<Rightarrow> Returns [[]]
           | Some us \<Rightarrow> Returns [found (caseless re) (prog re) 0 us]))"

subsection \<open>\<open>gutenberg_word_count\<close>\<close>

text \<open>
  The \<open>$settings\<close> array as the docblock types it: the \<open>*_regexp\<close> entries are strings,
  \<open>shortcodes\<close> is an array of strings, and every entry is optional.
\<close>

record settings =
  regexps :: "string \<rightharpoonup> string"
  shortcodes :: "string list option"

definition no_settings :: settings where
  "no_settings = \<lparr>regexps = Map.empty, shortcodes = None\<rparr>"

text \<open>The built-in patterns, byte for byte what the PHP literals of the source denote.\<close>

definition bs :: string where
  "bs = [backslash]"

definition html_regexp :: string where
  "html_regexp = ''/<'' @ bs @ ''/?[a-z][^>]*?>/i''"

definition html_comment_regexp :: string where
  "html_comment_regexp = ''/<!--['' @ bs @ ''s'' @ bs @ ''S]*?-->/''"

definition space_regexp :: string where
  "space_regexp = ''/&nbsp;|&#160;/i''"

definition html_entity_regexp :: string where
  "html_entity_regexp = ''/&'' @ bs @ ''S+?;/''"

definition connector_regexp :: string where
  "connector_regexp = ''/--|'' @ bs @ ''x{2014}/u''"

definition remove_regexp :: string where
  "remove_regexp =
     ''/['' @ bs @ ''x{0021}-'' @ bs @ ''x{0040}'' @ bs @ ''x{005B}-'' @ bs @ ''x{0060}''
       @ bs @ ''x{007B}-'' @ bs @ ''x{007E}'' @ bs @ ''x{0080}-'' @ bs @ ''x{00BF}''
       @ bs @ ''x{00D7}'' @ bs @ ''x{00F7}'' @ bs @ ''x{2000}-'' @ bs @ ''x{2BFF}''
       @ bs @ ''x{2E00}-'' @ bs @ ''x{2E7F}]/u''"

definition astral_regexp :: string where
  "astral_regexp =
     ''/['' @ bs @ ''x{D800}-'' @ bs @ ''x{DBFF}]['' @ bs @ ''x{DC00}-'' @ bs @ ''x{DFFF}]/u''"

definition words_regexp :: string where
  "words_regexp = ''/'' @ bs @ ''S'' @ bs @ ''s+/''"

definition characters_excluding_spaces_regexp :: string where
  "characters_excluding_spaces_regexp = ''/'' @ bs @ ''S/''"

definition characters_including_spaces_regexp :: string where
  \<comment> \<open>in the double-quoted literal PHP itself turns \<open>\f \n \r \t \v\<close> into the bytes
      0C 0A 0D 09 0B and leaves \<open>\x{...}\<close> to PCRE\<close>
  "characters_including_spaces_regexp =
     ''/[^'' @ [CHR 0x0C, CHR 0x0A, CHR 0x0D, CHR 0x09, CHR 0x0B]
       @ bs @ ''x{00AD}'' @ bs @ ''x{2028}'' @ bs @ ''x{2029}]/u''"

definition defaults :: "string \<rightharpoonup> string" where
  "defaults = map_of
     [(''html_regexp'', html_regexp),
      (''html_comment_regexp'', html_comment_regexp),
      (''space_regexp'', space_regexp),
      (''html_entity_regexp'', html_entity_regexp),
      (''connector_regexp'', connector_regexp),
      (''remove_regexp'', remove_regexp),
      (''astral_regexp'', astral_regexp),
      (''words_regexp'', words_regexp),
      (''characters_excluding_spaces_regexp'', characters_excluding_spaces_regexp),
      (''characters_including_spaces_regexp'', characters_including_spaces_regexp)]"

text \<open>
  \<open>wp_parse_args\<close> belongs to WordPress core; for an array argument it is
  \<open>array_merge($defaults, $args)\<close>: the caller's entry wins key by key.
\<close>

definition wp_parse_args :: "settings \<Rightarrow> (string \<rightharpoonup> string) \<Rightarrow> settings" where
  "wp_parse_args args dflt = args\<lparr>regexps := dflt ++ regexps args\<rparr>"

definition implode :: "string \<Rightarrow> string list \<Rightarrow> string" where
  "implode sep xs = (case xs of [] \<Rightarrow> [] | x # r \<Rightarrow> x @ concat (map (\<lambda>y. sep @ y) r))"

text \<open>PHP truth of a string: the empty string and \<open>"0"\<close> are false.\<close>

definition truthy :: "string \<Rightarrow> bool" where
  "truthy s = (s \<noteq> [] \<and> s \<noteq> ''0'')"

definition empty :: "string option \<Rightarrow> bool" where
  \<comment> \<open>PHP \<open>empty\<close> of an array entry: not set, or set to a false value\<close>
  "empty v = (case v of None \<Rightarrow> True | Some s \<Rightarrow> \<not> truthy s)"

definition entry :: "settings \<Rightarrow> string \<Rightarrow> string" where
  \<comment> \<open>reading an entry that is not set gives \<open>NULL\<close>, the empty string as a pattern\<close>
  "entry st k = (case regexps st k of None \<Rightarrow> [] | Some p \<Rightarrow> p)"

text \<open>
  The state carried through the body: the variable \<open>$text\<close>, and the \<open>preg_*\<close> calls
  made so far (pattern and replacement), oldest first.
\<close>

datatype call = Replace string string | Match_all string

record run =
  text_var :: "string option"
  calls :: "call list"

definition replace_step :: "string \<Rightarrow> string \<Rightarrow> run \<Rightarrow> run answer" where
  "replace_step pattern replacement st =
     and_then (preg_replace pattern replacement (text_var st))
       (\<lambda>t. Returns \<lparr>text_var = t, calls = calls st @ [Replace pattern replacement]\<rparr>)"

definition shortcodes_regexp_of :: "string list \<Rightarrow> string" where
  \<comment> \<open>line 64: \<open>'\\[\\/?(?:' . implode( '|', $settings['shortcodes'] ) . ')[^\\]]*?\\]'\<close>,
      in single quotes, where two backslashes denote one\<close>
  "shortcodes_regexp_of names =
     bs @ ''['' @ bs @ ''/?(?:'' @ implode ''|'' names @ '')[^'' @ bs @ '']]*?'' @ bs @ '']''"

definition sanitize_type :: "string \<Rightarrow> string" where
  \<comment> \<open>lines 68 to 70\<close>
  "sanitize_type type =
     (if type \<noteq> ''characters_excluding_spaces'' \<and> type \<noteq> ''characters_including_spaces''
      then ''words'' else type)"

definition add_shortcodes_regexp :: "settings \<Rightarrow> settings" where
  \<comment> \<open>lines 63 to 65: \<open>isset\<close> and \<open>is_array\<close> hold of any list, the empty one too\<close>
  "add_shortcodes_regexp st =
     (case shortcodes st of
        None \<Rightarrow> st
      | Some names \<Rightarrow>
          st\<lparr>regexps := (regexps st)(''shortcodes_regexp'' \<mapsto> shortcodes_regexp_of names)\<rparr>)"

definition resolve :: "settings \<Rightarrow> settings" where
  \<comment> \<open>lines 60 to 65: the defaults merged in, then the derived shortcode pattern\<close>
  "resolve settings = add_shortcodes_regexp (wp_parse_args settings defaults)"

definition shortcode_step :: "settings \<Rightarrow> run \<Rightarrow> run answer" where
  \<comment> \<open>lines 81 to 83\<close>
  "shortcode_step settings st =
     (if \<not> empty (regexps settings ''shortcodes_regexp'')
      then replace_step (entry settings ''shortcodes_regexp'') ''\<newline>'' st
      else Returns st)"

definition type_step :: "settings \<Rightarrow> string \<Rightarrow> run \<Rightarrow> run answer" where
  \<comment> \<open>lines 88 to 105\<close>
  "type_step settings type st =
     (if type = ''words''
      then
        and_then (replace_step (entry settings ''html_entity_regexp'') [] st) (\<lambda>st.
        and_then (replace_step (entry settings ''connector_regexp'') '' '' st) (\<lambda>st.
        replace_step (entry settings ''remove_regexp'') [] st))
      else
        and_then (replace_step (entry settings ''html_entity_regexp'') ''a'' st) (\<lambda>st.
        replace_step (entry settings ''astral_regexp'') ''a'' st))"

definition count_step :: "settings \<Rightarrow> string \<Rightarrow> int \<Rightarrow> run \<Rightarrow> (call list \<times> int) answer" where
  \<comment> \<open>lines 107 to 114\<close>
  "count_step settings type count st =
     and_then (preg_match_all (entry settings (type @ ''_regexp'')) (text_var st)) (\<lambda>matches.
     Returns (calls st @ [Match_all (entry settings (type @ ''_regexp''))],
              if matches \<noteq> [] then int (length (hd matches)) else count))"

text \<open>
  The function itself, returning the calls it made beside its result.
\<close>

definition gutenberg_word_count_run ::
  "string \<Rightarrow> string \<Rightarrow> settings \<Rightarrow> (call list \<times> int) answer" where
  "gutenberg_word_count_run text type settings =
     (let count = 0 in
      if \<not> truthy text then Returns ([], count)
      else
        let settings = resolve settings;
            type = sanitize_type type;
            st = \<lparr>text_var = Some (text @ ''\<newline>''), calls = []\<rparr>
        in
        and_then (replace_step (entry settings ''html_regexp'') ''\<newline>'' st) (\<lambda>st.
        and_then (replace_step (entry settings ''html_comment_regexp'') [] st) (\<lambda>st.
        and_then (shortcode_step settings st) (\<lambda>st.
        and_then (replace_step (entry settings ''space_regexp'') '' '' st) (\<lambda>st.
        and_then (type_step settings type st) (\<lambda>st.
        count_step settings type count st))))))"

definition gutenberg_word_count :: "string \<Rightarrow> string \<Rightarrow> settings \<Rightarrow> int answer" where
  "gutenberg_word_count text type settings =
     and_then (gutenberg_word_count_run text type settings) (\<lambda>(cs, n). Returns n)"

definition preg_calls :: "string \<Rightarrow> string \<Rightarrow> settings \<Rightarrow> call list answer" where
  "preg_calls text type settings =
     and_then (gutenberg_word_count_run text type settings) (\<lambda>(cs, n). Returns cs)"

section \<open>Properties\<close>

subsection \<open>Inputs used below\<close>

definition gallery_settings :: settings where
  \<comment> \<open>\<open>array( 'shortcodes' => array( 'gallery' ) )\<close>\<close>
  "gallery_settings = \<lparr>regexps = Map.empty, shortcodes = Some [''gallery'']\<rparr>"

definition bracket_regexp :: string where
  \<comment> \<open>the PHP literal \<open>'/\[[^\]]*?\]/'\<close>\<close>
  "bracket_regexp = ''/'' @ bs @ ''[[^'' @ bs @ '']]*?'' @ bs @ '']/''"

definition bracket_settings :: settings where
  \<comment> \<open>\<open>array( 'shortcodes_regexp' => '/\[[^\]]*?\]/' )\<close>\<close>
  "bracket_settings =
     \<lparr>regexps = [''shortcodes_regexp'' \<mapsto> bracket_regexp], shortcodes = None\<rparr>"

definition delimited_gallery_settings :: settings where
  \<comment> \<open>the derived gallery pattern, written between slashes and passed in by the caller\<close>
  "delimited_gallery_settings =
     \<lparr>regexps = [''shortcodes_regexp'' \<mapsto> ''/'' @ shortcodes_regexp_of [''gallery''] @ ''/''],
      shortcodes = None\<rparr>"

definition supplementary_settings :: settings where
  \<comment> \<open>\<open>array( 'astral_regexp' => '/[\x{10000}-\x{10FFFF}]/u' )\<close>\<close>
  "supplementary_settings =
     \<lparr>regexps = [''astral_regexp'' \<mapsto> ''/['' @ bs @ ''x{10000}-'' @ bs @ ''x{10FFFF}]/u''],
      shortcodes = None\<rparr>"

definition start :: run where
  "start = \<lparr>text_var = Some ''before[gallery]after'', calls = []\<rparr>"

text \<open>
  Texts of ASCII letters, and texts of letters and newlines: no built-in replacement
  pattern matches in the latter.
\<close>

definition letter :: "int \<Rightarrow> bool" where
  "letter c = (isupper c \<or> islower c)"


definition plain :: "int \<Rightarrow> bool" where
  "plain c = (letter c \<or> c = 10)"


subsection \<open>Facts about the settings\<close>

lemma defaults_no_shortcodes_regexp: "defaults ''shortcodes_regexp'' = None"
  by (simp add: defaults_def)

lemma truthy_shortcodes_regexp_of: "truthy (shortcodes_regexp_of names)"
  by (simp add: truthy_def shortcodes_regexp_of_def bs_def backslash_def)

lemma sanitize_type_other:
  assumes "type \<noteq> ''characters_excluding_spaces''"
    and "type \<noteq> ''characters_including_spaces''"
  shows "sanitize_type type = sanitize_type ''words''"
  using assms by (simp add: sanitize_type_def)

lemma hello_world_words:
  "gutenberg_word_count ''hello world'' ''words'' no_settings = Returns 2"
  by code_simp

lemma falsy_text_returns:
  assumes "\<not> truthy text"
  shows "gutenberg_word_count_run text type settings = Returns ([], 0)"
  using assms by (simp add: gutenberg_word_count_run_def)

subsection \<open>The type argument\<close>

text \<open>
  C1. For every text and every settings array, a type other than
  \<open>'characters_excluding_spaces'\<close> and \<open>'characters_including_spaces'\<close> gives exactly
  the result that \<open>'words'\<close> gives. The type is only read after line 68 has
  sanitised it, so the two runs are the same whatever the patterns are.
\<close>

theorem unrecognised_type_counts_words:
  assumes "type \<noteq> ''characters_excluding_spaces''"
    and "type \<noteq> ''characters_including_spaces''"
  shows "gutenberg_word_count text type settings = gutenberg_word_count text ''words'' settings"
proof -
  have same: "sanitize_type type = sanitize_type ''words''"
    using assms by (rule sanitize_type_other)
  show ?thesis
    unfolding gutenberg_word_count_def gutenberg_word_count_run_def
    by (simp only: same)
qed

theorem unrecognised_type_counts_words_witness:
  "gutenberg_word_count ''hello world'' ''sentences'' no_settings = Returns 2
   \<and> gutenberg_word_count ''hello world'' ''words'' no_settings = Returns 2"
  using unrecognised_type_counts_words [of "''sentences''" "''hello world''" no_settings]
    hello_world_words
  by simp

subsection \<open>Texts that PHP takes as false\<close>

text \<open>
  C2. For every type and every settings array the empty text gives 0, and no
  \<open>preg_*\<close> call is made: the function returns before the first normalization step.
\<close>

theorem empty_text_counts_zero:
  "gutenberg_word_count [] type settings = Returns 0
   \<and> preg_calls [] type settings = Returns []"
  by (simp add: gutenberg_word_count_def preg_calls_def falsy_text_returns truthy_def
      and_then_def)

lemma zero_text_has_content:
  "preg_match_all words_regexp (Some ''0\<newline>'') = Returns [[''0\<newline>'']]
   \<and> preg_match_all characters_excluding_spaces_regexp (Some ''0\<newline>'') = Returns [[''0'']]"
  by code_simp

text \<open>
  C10. The guard tests truth, not emptiness: for every type and every settings array
  the one-character text \<open>"0"\<close> gives 0, with no \<open>preg_*\<close> call made, although the
  counting patterns find one word boundary and one non-space character in \<open>"0\n"\<close>.
\<close>

theorem zero_text_counts_zero:
  "gutenberg_word_count ''0'' type settings = Returns 0
   \<and> preg_calls ''0'' type settings = Returns []
   \<and> preg_match_all words_regexp (Some ''0\<newline>'') = Returns [[''0\<newline>'']]
   \<and> preg_match_all characters_excluding_spaces_regexp (Some ''0\<newline>'') = Returns [[''0'']]"
  using zero_text_has_content
  by (simp add: gutenberg_word_count_def preg_calls_def falsy_text_returns truthy_def
      and_then_def)

subsection \<open>Counts with the built-in patterns\<close>

text \<open>
  C3. With no overrides, \<open>"hello world"\<close> has 2 words. The two character counts are 0,
  not 10 and 11: \<open>astral_regexp\<close> names surrogate code points under \<open>/u\<close>, PCRE refuses
  to compile it, \<open>preg_replace\<close> returns \<open>NULL\<close> into \<open>$text\<close>, and the final match finds
  nothing. With an \<open>astral_regexp\<close> that compiles the counts are 10 and 11.
\<close>

theorem hello_world_counts:
  "gutenberg_word_count ''hello world'' ''words'' no_settings = Returns 2
   \<and> gutenberg_word_count ''hello world'' ''characters_excluding_spaces'' no_settings = Returns 0
   \<and> gutenberg_word_count ''hello world'' ''characters_including_spaces'' no_settings = Returns 0
   \<and> pcre_get_compiled_regex astral_regexp = Invalid
   \<and> gutenberg_word_count ''hello world'' ''characters_excluding_spaces'' supplementary_settings
       = Returns 10
   \<and> gutenberg_word_count ''hello world'' ''characters_including_spaces'' supplementary_settings
       = Returns 11"
  by code_simp

text \<open>
  C4. With the built-in patterns a tag becomes a newline and a comment is deleted:
  \<open>"hello<br>world"\<close> has 2 words and \<open>"hello<!-- x -->world"\<close> has 1.
\<close>

theorem tags_separate_comments_vanish:
  "gutenberg_word_count ''hello<br>world'' ''words'' no_settings = Returns 2
   \<and> gutenberg_word_count ''hello<!-- x -->world'' ''words'' no_settings = Returns 1
   \<and> preg_replace html_regexp ''\<newline>'' (Some ''hello<br>world'')
       = Returns (Some ''hello\<newline>world'')
   \<and> preg_replace html_comment_regexp [] (Some ''hello<!-- x -->world'')
       = Returns (Some ''helloworld'')"
  by code_simp

text \<open>
  C5. With the built-in patterns a double hyphen is a connector and becomes a space,
  a single hyphen is not a connector and is removed with the punctuation:
  \<open>"well--done"\<close> has 2 words and \<open>"well-done"\<close> has 1.
\<close>

theorem double_hyphen_splits_single_hyphen_stripped:
  "gutenberg_word_count ''well--done'' ''words'' no_settings = Returns 2
   \<and> gutenberg_word_count ''well-done'' ''words'' no_settings = Returns 1
   \<and> preg_replace connector_regexp '' '' (Some ''well--done'') = Returns (Some ''well done'')
   \<and> preg_replace connector_regexp '' '' (Some ''well-done'') = Returns (Some ''well-done'')
   \<and> preg_replace remove_regexp [] (Some ''well-done'') = Returns (Some ''welldone'')"
  by code_simp

text \<open>
  C6. In a character count each HTML entity is replaced by the letter \<open>a\<close>, but the
  count of \<open>"a&amp;b"\<close> with spaces is 0, not 3: the replacement with \<open>astral_regexp\<close>
  that follows returns \<open>NULL\<close>. With an \<open>astral_regexp\<close> that compiles the count is 3.
\<close>

theorem entity_character_count:
  "gutenberg_word_count ''a&amp;b'' ''characters_including_spaces'' no_settings = Returns 0
   \<and> preg_replace html_entity_regexp ''a'' (Some ''a&amp;b\<newline>'')
       = Returns (Some ''aab\<newline>'')
   \<and> preg_replace astral_regexp ''a'' (Some ''aab\<newline>'') = Returns None
   \<and> gutenberg_word_count ''a&amp;b'' ''characters_including_spaces'' supplementary_settings
       = Returns 3"
  by code_simp

subsection \<open>A run of letters\<close>






































subsection \<open>Shortcodes\<close>

text \<open>
  C8. With \<open>shortcodes = ["gallery"]\<close> the word count of \<open>"before[gallery id=1]after"\<close>
  is 0, not 2: the derived pattern is written without delimiters, its first byte is a
  backslash, \<open>preg_replace\<close> rejects it and returns \<open>NULL\<close> into \<open>$text\<close>. The same
  pattern between slashes gives 2.
\<close>

theorem gallery_shortcode_count:
  "gutenberg_word_count ''before[gallery id=1]after'' ''words'' gallery_settings = Returns 0
   \<and> pcre_get_compiled_regex (shortcodes_regexp_of [''gallery'']) = Invalid
   \<and> preg_replace (shortcodes_regexp_of [''gallery'']) ''\<newline>''
         (Some ''before[gallery id=1]after\<newline>'')
       = Returns None
   \<and> gutenberg_word_count ''before[gallery id=1]after'' ''words'' delimited_gallery_settings
       = Returns 2"
  by code_simp

text \<open>
  C9 as stated does not hold: with \<open>shortcodes\<close> absent a caller who passes
  \<open>shortcodes_regexp\<close> has it kept by the merge, and the replacement step runs with it.
\<close>

theorem caller_shortcodes_regexp_is_used:
  "shortcodes bracket_settings = None
   \<and> regexps (resolve bracket_settings) ''shortcodes_regexp'' = Some bracket_regexp
   \<and> shortcode_step (resolve bracket_settings) start =
       Returns \<lparr>text_var = Some ''before\<newline>after'',
                calls = [Replace bracket_regexp ''\<newline>'']\<rparr>
   \<and> gutenberg_word_count ''before[gallery]after'' ''words'' bracket_settings = Returns 2
   \<and> gutenberg_word_count ''before[gallery]after'' ''words'' no_settings = Returns 1"
  by code_simp

text \<open>
  C9, amended. When the caller supplies a non-empty \<open>shortcodes\<close> list the pattern is
  derived from it, replaces any \<open>shortcodes_regexp\<close> of the caller, and the replacement
  step runs with it. When \<open>shortcodes\<close> is absent the caller's \<open>shortcodes_regexp\<close>
  entry is kept, and the step runs with it when it is a true value. When \<open>shortcodes\<close>
  is absent and the caller's \<open>shortcodes_regexp\<close> is absent or a false value, the step
  is skipped: it leaves the text and the calls as they are.
\<close>

theorem shortcodes_regexp_resolution:
  "(shortcodes s = Some names \<and> names \<noteq> [] \<longrightarrow>
      regexps (resolve s) ''shortcodes_regexp'' = Some (shortcodes_regexp_of names)
      \<and> shortcode_step (resolve s) st = replace_step (shortcodes_regexp_of names) ''\<newline>'' st)
   \<and> (shortcodes s = None \<longrightarrow>
      regexps (resolve s) ''shortcodes_regexp'' = regexps s ''shortcodes_regexp'')
   \<and> (shortcodes s = None \<and> regexps s ''shortcodes_regexp'' = Some p \<and> truthy p \<longrightarrow>
      shortcode_step (resolve s) st = replace_step p ''\<newline>'' st)
   \<and> (shortcodes s = None \<and> empty (regexps s ''shortcodes_regexp'') \<longrightarrow>
      shortcode_step (resolve s) st = Returns st)"
  by (simp add: resolve_def add_shortcodes_regexp_def wp_parse_args_def shortcode_step_def
      entry_def empty_def map_add_def defaults_no_shortcodes_regexp truthy_shortcodes_regexp_of
      split: option.splits)

theorem shortcodes_regexp_resolution_witness:
  "regexps (resolve gallery_settings) ''shortcodes_regexp''
     = Some (shortcodes_regexp_of [''gallery''])
   \<and> shortcode_step (resolve gallery_settings) start
       = replace_step (shortcodes_regexp_of [''gallery'']) ''\<newline>'' start
   \<and> regexps (resolve no_settings) ''shortcodes_regexp'' = None
   \<and> shortcode_step (resolve bracket_settings) start
       = replace_step bracket_regexp ''\<newline>'' start
   \<and> shortcode_step (resolve no_settings) start = Returns start"
proof -
  have g: "shortcodes gallery_settings = Some [''gallery''] \<and> [''gallery''] \<noteq> []"
    by (simp add: gallery_settings_def)
  have b: "shortcodes bracket_settings = None
      \<and> regexps bracket_settings ''shortcodes_regexp'' = Some bracket_regexp
      \<and> truthy bracket_regexp"
    by (simp add: bracket_settings_def bracket_regexp_def truthy_def)
  have n: "shortcodes no_settings = None \<and> empty (regexps no_settings ''shortcodes_regexp'')"
    by (simp add: no_settings_def empty_def)
  show ?thesis
    using g b n
      shortcodes_regexp_resolution [of gallery_settings "[''gallery'']" start]
      shortcodes_regexp_resolution [of bracket_settings _ start bracket_regexp]
      shortcodes_regexp_resolution [of no_settings _ start]
    by (simp add: no_settings_def)
qed

end
